theory Spec2Isabelle
  imports Complex_Main "HOL-Library.Sublist" "HOL-Library.Option_ord"
begin

section \<open>The Web3 promotion bot (zepp.py)\<close>

text \<open>
  The bot is a set of handlers over three pieces of state: the SQLite file
  \<^verbatim>\<open>web3_bot.db\<close>, the per-user dictionary \<^verbatim>\<open>context.user_data\<close> and the outside world
  (the chat transport and the market-data endpoint). A handler is modelled as a function
  from the world before to an outcome and the world after. An outcome is \<open>Inr ()\<close> when
  the coroutine returns and \<open>Inl e\<close> when the exception \<open>e\<close> leaves it.

  What the outside does is not in the source, so it is a parameter: the environment says,
  for each interaction in turn, whether a chat call raises, what the user lookup gives and
  how the HTTP request ends. Theorems quantify over the environment.

  Message texts carry emoji, which a byte string cannot hold. A text is therefore a
  constructor named after the literal in the source, and the data that the source formats
  into the text are the constructor's arguments. Labels of \<^verbatim>\<open>SERVICE_TYPES\<close> are written
  without their leading emoji. Timestamps and the AUTOINCREMENT keys of service rows are
  assigned by the store and are left out.
\<close>

subsection \<open>Exceptions\<close>

datatype exn =
    IntegrityError      \<comment> \<open>sqlite3.IntegrityError\<close>
  | OperationalError    \<comment> \<open>sqlite3.OperationalError: no such table\<close>
  | OverflowError       \<comment> \<open>Python int too large to convert to SQLite INTEGER\<close>
  | Timeout             \<comment> \<open>requests.Timeout\<close>
  | ConnectionError     \<comment> \<open>requests.ConnectionError\<close>
  | HTTPError           \<comment> \<open>requests.HTTPError, from raise_for_status\<close>
  | InvalidJSONError    \<comment> \<open>requests.exceptions.InvalidJSONError\<close>
  | TelegramError       \<comment> \<open>a chat call that fails\<close>
  | AttributeError
  | KeyError
  | TypeError
  | ValueError

text \<open>The classes that \<^verbatim>\<open>except requests.RequestException\<close> catches.\<close>

fun is_RequestException :: "exn \<Rightarrow> bool" where
  "is_RequestException Timeout = True"
| "is_RequestException ConnectionError = True"
| "is_RequestException HTTPError = True"
| "is_RequestException InvalidJSONError = True"
| "is_RequestException _ = False"

subsection \<open>The database\<close>

record project =
  proj_id :: int
  proj_name :: string
  proj_description :: "string option"
  proj_votes :: "int option"          \<comment> \<open>INTEGER DEFAULT 0, nullable\<close>
  proj_submitted_by :: "int option"

record service =
  svc_user_id :: int
  svc_service_type :: string
  svc_description :: string
  svc_price :: "string option"
  svc_is_active :: bool

text \<open>
  A table that was never created is \<open>None\<close>. A vote row is the pair
  \<open>(user_id, project_id)\<close>, a wallet row the pair \<open>(coin, address)\<close>. Rows are kept in
  insertion order.

  Identifiers are Python integers, and an INTEGER of the store has 64 bits: binding an
  integer outside that range raises OverflowError. The project identifier of a vote is
  read from the callback tag, so it can be any integer, and the model has this error.
  The user identifiers are those under which the chat service delivers an update
  (\<^verbatim>\<open>from_user.id\<close>, \<^verbatim>\<open>effective_user.id\<close>); they lie within the range and the model
  binds them as they are.
\<close>

record database =
  projects :: "project list option"
  services :: "service list option"
  votes :: "(int \<times> int) list option"
  wallets :: "(string \<times> string) list option"

definition empty_database :: database where
  "empty_database = \<lparr>projects = None, services = None, votes = None, wallets = None\<rparr>"

definition create_if_not_exists :: "'a list option \<Rightarrow> 'a list option" where
  "create_if_not_exists t = (case t of None \<Rightarrow> Some [] | Some rows \<Rightarrow> Some rows)"

definition sample_wallets :: "(string \<times> string) list" where
  "sample_wallets =
     [(''BTC'', ''1A1zP1eP5QGefi2DMPTfTL5SLmv7DivfNa''),
      (''ETH'', ''0x742d35Cc6634C0532925a3b844Bc454e4438f44e'')]"

definition init_db :: "database \<Rightarrow> database" where
  "init_db d =
     (let d1 = \<lparr>projects = create_if_not_exists (projects d),
                services = create_if_not_exists (services d),
                votes = create_if_not_exists (votes d),
                wallets = create_if_not_exists (wallets d)\<rparr>
      in if wallets d1 = Some [] then d1\<lparr>wallets := Some sample_wallets\<rparr> else d1)"

definition sqlite_integer :: "int \<Rightarrow> bool" where
  "sqlite_integer n = (- (2 ^ 63) \<le> n \<and> n < 2 ^ 63)"

text \<open>\<^verbatim>\<open>INSERT INTO votes (user_id, project_id) VALUES (?, ?)\<close> under the primary key
  \<open>(user_id, project_id)\<close>. The statement is prepared, which needs the table, then the
  parameters are bound, then the key is checked. A stored row has identifiers within the
  range, so a pair with an identifier out of range is never found in the table: the
  order in which the two tests are written here does not show.\<close>

definition insert_vote :: "int \<Rightarrow> int \<Rightarrow> database \<Rightarrow> exn + database" where
  "insert_vote user_id project_id d =
     (case votes d of
        None \<Rightarrow> Inl OperationalError
      | Some vs \<Rightarrow>
          if (user_id, project_id) \<in> set vs then Inl IntegrityError
          else if \<not> sqlite_integer project_id then Inl OverflowError
          else Inr (d\<lparr>votes := Some (vs @ [(user_id, project_id)])\<rparr>))"

text \<open>\<^verbatim>\<open>UPDATE projects SET votes = votes + 1 WHERE id = ?\<close>; \<open>NULL + 1\<close> is \<open>NULL\<close>.\<close>

definition bump :: "int \<Rightarrow> project \<Rightarrow> project" where
  "bump project_id p =
     (if proj_id p = project_id
      then p\<lparr>proj_votes := map_option (\<lambda>v. v + 1) (proj_votes p)\<rparr> else p)"

definition update_votes :: "int \<Rightarrow> database \<Rightarrow> exn + database" where
  "update_votes project_id d =
     (case projects d of
        None \<Rightarrow> Inl OperationalError
      | Some ps \<Rightarrow> Inr (d\<lparr>projects := Some (map (bump project_id) ps)\<rparr>))"

text \<open>\<^verbatim>\<open>INSERT INTO services (user_id, service_type, description) VALUES (?, ?, ?)\<close>;
  price and is_active take their defaults.\<close>

definition insert_service :: "int \<Rightarrow> string \<Rightarrow> string \<Rightarrow> database \<Rightarrow> exn + database" where
  "insert_service user_id service_type description d =
     (case services d of
        None \<Rightarrow> Inl OperationalError
      | Some rows \<Rightarrow>
          Inr (d\<lparr>services := Some (rows @
                 [\<lparr>svc_user_id = user_id, svc_service_type = service_type,
                   svc_description = description, svc_price = None,
                   svc_is_active = True\<rparr>])\<rparr>))"

subsection \<open>Texts, chat calls and the world\<close>

text \<open>\<^verbatim>\<open>SERVICE_TYPES\<close>, in the order of the dictionary literal.\<close>

definition SERVICE_TYPES :: "(string \<times> string) list" where
  "SERVICE_TYPES =
     [(''shilling'', ''Shilling Services''),
      (''hype'', ''Organic Hype Building''),
      (''mod'', ''Community Moderation''),
      (''cm'', ''Community Management''),
      (''dev'', ''Web3 Development''),
      (''design'', ''NFT/Web3 Design''),
      (''other'', ''Other Web3 Services'')]"

datatype label =
    ServiceLabel string                 \<comment> \<open>a value of SERVICE_TYPES\<close>
  | ProjectLabel string "int option"    \<comment> \<open>name (votes)\<close>

text \<open>An inline keyboard with one button per row: the label and the callback data.\<close>

type_synonym keyboard = "(label \<times> string) list"

datatype msg =
    VoteCounted           \<comment> \<open>Your vote has been counted! Project ranking updated.\<close>
  | AlreadyVoted          \<comment> \<open>You've already voted for this project!\<close>
  | VoteFailed            \<comment> \<open>Failed to process your vote. Please try again.\<close>
  | ServiceSubmitted      \<comment> \<open>Service submitted to admins!\<close>
  | DescribeService string  \<comment> \<open>Describe your (label): ... Type your description now:\<close>
  | SelectServiceType     \<comment> \<open>Select your service type:\<close>
  | NewServiceSubmission string string string
      \<comment> \<open>New Service Submission: Type, From, Details\<close>
  | TopCryptocurrencies "(string \<times> rat \<times> rat) list"
      \<comment> \<open>Top 5 Cryptocurrencies: one line per coin (symbol, shown in upper case, price,
         24h change)\<close>
  | TrendsUnavailable
      \<comment> \<open>Couldn't fetch trends. Try again later. Meanwhile check /wallets or /vote\<close>
  | NoProjects            \<comment> \<open>No projects available for voting yet! ...\<close>
  | VoteForProjects       \<comment> \<open>Vote for Web3 Projects. Community-ranked top 10:\<close>
  | VerifiedWallets "(string \<times> string) list"
      \<comment> \<open>Verified Wallets: one line per (coin, address)\<close>

datatype api_call =
    Answer                          \<comment> \<open>query.answer()\<close>
  | SendMessage int msg            \<comment> \<open>context.bot.send_message(chat_id, text)\<close>
  | EditMessageText msg keyboard   \<comment> \<open>query.edit_message_text(text, reply_markup)\<close>
  | ReplyText msg keyboard         \<comment> \<open>update.message.reply_text(text, reply_markup)\<close>

datatype log_entry =
    NotifyFailed int exn       \<comment> \<open>Failed to notify admin %d: %s\<close>
  | VoteProcessingError exn    \<comment> \<open>Vote processing error: %s\<close>
  | TrendsApiError exn         \<comment> \<open>Trends API error: %s\<close>

text \<open>What a handler does to the outside, in order: a chat call with whether it went
  through, or a line of the error log.\<close>

datatype event = Api api_call bool | Log log_entry

record coin =
  symbol :: string
  current_price :: rat
  price_change_percentage_24h :: "rat option"    \<comment> \<open>null for some assets\<close>

text \<open>How \<^verbatim>\<open>requests.get\<close> ends: it raises, or it returns a status code and a body on
  which \<^verbatim>\<open>response.json()\<close> raises or gives the list of coins.\<close>

datatype http_result = TimedOut | ConnectFailed | Response nat "exn + coin list"

record env =
  ADMIN_IDS :: "int list"
  api_fails :: "nat \<Rightarrow> bool"                      \<comment> \<open>the chat call at this time raises\<close>
  chat_username :: "nat \<Rightarrow> int \<Rightarrow> exn + string"
      \<comment> \<open>context.bot.get_chat(user_id).username at this time\<close>
  http_get :: "nat \<Rightarrow> http_result"
  int_unicode :: "string \<Rightarrow> int option"
      \<comment> \<open>int(s) on a text with characters outside ASCII\<close>

text \<open>\<open>user_data w u\<close> is the value under \<^verbatim>\<open>'awaiting_service'\<close> in the dictionary of user
  \<open>u\<close>. The clock counts the interactions with the outside so far.\<close>

record world =
  db :: database
  user_data :: "int \<Rightarrow> string option"
  trace :: "event list"
  clock :: nat

record tg_query =
  from_user :: int
  data :: string

text \<open>An update: the text of \<^verbatim>\<open>update.message\<close> when the update has a message, the
  callback query when it has one, and the identifier of \<^verbatim>\<open>update.effective_user\<close>.\<close>

record tg_update =
  message :: "string option"
  callback_query :: "tg_query option"
  effective_user :: int

type_synonym 'a io = "world \<Rightarrow> (exn + 'a) \<times> world"

definition call_api :: "env \<Rightarrow> api_call \<Rightarrow> unit io" where
  "call_api e c w =
     (let ok = \<not> api_fails e (clock w);
          w1 = w\<lparr>trace := trace w @ [Api c ok], clock := Suc (clock w)\<rparr>
      in (if ok then Inr () else Inl TelegramError, w1))"

definition logger_error :: "log_entry \<Rightarrow> world \<Rightarrow> world" where
  "logger_error l w = w\<lparr>trace := trace w @ [Log l]\<rparr>"

text \<open>\<^verbatim>\<open>update.message.reply_text(...)\<close>: on an update without a message,
  \<^verbatim>\<open>update.message\<close> is None and the attribute access raises.\<close>

definition reply_text :: "env \<Rightarrow> tg_update \<Rightarrow> msg \<Rightarrow> keyboard \<Rightarrow> unit io" where
  "reply_text e upd t kb w =
     (case message upd of
        None \<Rightarrow> (Inl AttributeError, w)
      | Some _ \<Rightarrow> call_api e (ReplyText t kb) w)"

text \<open>\<^verbatim>\<open>with sqlite3.connect(...) as conn\<close>: the block's writes are committed when it ends
  normally and rolled back when an exception leaves it.\<close>

definition with_connection :: "world \<Rightarrow> (exn + 'a) \<times> world \<Rightarrow> (exn + 'a) \<times> world" where
  "with_connection w0 r =
     (case r of
        (Inl e, w1) \<Rightarrow> (Inl e, w1\<lparr>db := db w0\<rparr>)
      | (Inr x, w1) \<Rightarrow> (Inr x, w1))"

subsection \<open>Strings and integers of Python\<close>

text \<open>\<^verbatim>\<open>' '.join(args)\<close>.\<close>

fun join :: "string list \<Rightarrow> string" where
  "join [] = []"
| "join [x] = x"
| "join (x # y # ys) = x @ CHR '' '' # join (y # ys)"

text \<open>
  \<^verbatim>\<open>int(s)\<close> on a string: white space around, an optional sign, then decimal digits in
  which single underscores may separate digits; anything else raises ValueError
  (\<open>None\<close>). On ASCII text the white space that \<^verbatim>\<open>int\<close> skips is tab, line feed,
  vertical tab, form feed, carriage return and space, and the digits are \<open>0\<close> to \<open>9\<close>.
  On a text with a character outside ASCII (in the model, a byte from 128 on: strings
  are UTF-8) \<^verbatim>\<open>int\<close> also takes the white space and the decimal digits of Unicode. That
  table belongs to the interpreter, not to the source, and what \<^verbatim>\<open>int\<close> gives on such a
  text is a parameter of the environment.
\<close>

definition ascii :: "string \<Rightarrow> bool" where
  "ascii s = list_all (\<lambda>c. (of_char c :: nat) < 128) s"

definition isspace :: "char \<Rightarrow> bool" where
  "isspace c = (let n = (of_char c :: nat) in (9 \<le> n \<and> n \<le> 13) \<or> n = 32)"

definition strip :: "string \<Rightarrow> string" where
  "strip s = rev (dropWhile isspace (rev (dropWhile isspace s)))"

definition digit :: "char \<Rightarrow> nat option" where
  "digit c = (let n = (of_char c :: nat) in if 48 \<le> n \<and> n \<le> 57 then Some (n - 48) else None)"

text \<open>\<open>digits acc u s\<close>: the value of the digits of \<open>s\<close> after the value \<open>acc\<close> read so
  far; \<open>u\<close> says that the character before was an underscore.\<close>

fun digits :: "nat \<Rightarrow> bool \<Rightarrow> string \<Rightarrow> nat option" where
  "digits acc u [] = (if u then None else Some acc)"
| "digits acc u (c # cs) =
     (if c = CHR ''_'' then (if u then None else digits acc True cs)
      else case digit c of
             None \<Rightarrow> None
           | Some v \<Rightarrow> digits (10 * acc + v) False cs)"

definition py_nat :: "string \<Rightarrow> nat option" where
  "py_nat s =
     (case s of
        [] \<Rightarrow> None
      | c # cs \<Rightarrow> (case digit c of None \<Rightarrow> None | Some v \<Rightarrow> digits v False cs))"

definition ascii_int :: "string \<Rightarrow> int option" where
  "ascii_int s =
     (case strip s of
        [] \<Rightarrow> None
      | c # cs \<Rightarrow>
          if c = CHR ''-'' then map_option (\<lambda>n. - int n) (py_nat cs)
          else if c = CHR ''+'' then map_option int (py_nat cs)
          else map_option int (py_nat (c # cs)))"

definition py_int :: "env \<Rightarrow> string \<Rightarrow> int option" where
  "py_int e s = (if ascii s then ascii_int s else int_unicode e s)"

text \<open>\<^verbatim>\<open>str(i)\<close>, as the f-string \<^verbatim>\<open>f'vote_{id}'\<close> renders the identifier.\<close>

fun str_nat :: "nat \<Rightarrow> string" where
  "str_nat n =
     (if n < 10 then [char_of (48 + n)]
      else str_nat (n div 10) @ [char_of (48 + n mod 10)])"

declare str_nat.simps [simp del]

definition str_int :: "int \<Rightarrow> string" where
  "str_int i = (if i < 0 then CHR ''-'' # str_nat (nat (- i)) else str_nat (nat i))"

subsection \<open>Service functions\<close>

text \<open>\<^verbatim>\<open>SERVICE_TYPES.get(service_type, service_type)\<close>.\<close>

definition service_label :: "string \<Rightarrow> string" where
  "service_label service_type =
     (case map_of SERVICE_TYPES service_type of None \<Rightarrow> service_type | Some l \<Rightarrow> l)"

text \<open>
  One round of the loop over \<^verbatim>\<open>ADMIN_IDS\<close>. The text is built first, and building it looks
  the submitter up; then the message is sent. Whatever either step raises is caught by
  \<^verbatim>\<open>except Exception\<close> and logged.
\<close>

definition notify_admin :: "env \<Rightarrow> int \<Rightarrow> string \<Rightarrow> string \<Rightarrow> int \<Rightarrow> world \<Rightarrow> world" where
  "notify_admin e user_id service_type description admin_id w =
     (let w1 = w\<lparr>clock := Suc (clock w)\<rparr>
      in case chat_username e (clock w) user_id of
           Inl x \<Rightarrow> logger_error (NotifyFailed admin_id x) w1
         | Inr username \<Rightarrow>
             (case call_api e
                     (SendMessage admin_id
                        (NewServiceSubmission (service_label service_type) username
                           (take 1000 description))) w1 of
                (Inl x, w2) \<Rightarrow> logger_error (NotifyFailed admin_id x) w2
              | (Inr _, w2) \<Rightarrow> w2))"

definition submit_service :: "env \<Rightarrow> int \<Rightarrow> string \<Rightarrow> string \<Rightarrow> unit io" where
  "submit_service e user_id service_type description w =
     (case with_connection w
             (case insert_service user_id service_type description (db w) of
                Inl x \<Rightarrow> (Inl x, w)
              | Inr d \<Rightarrow> (Inr (), w\<lparr>db := d\<rparr>)) of
        (Inl x, w1) \<Rightarrow> (Inl x, w1)
      | (Inr _, w1) \<Rightarrow>
          (Inr (), fold (notify_admin e user_id service_type description) (ADMIN_IDS e) w1))"

subsection \<open>Voting\<close>

text \<open>The body of the \<^verbatim>\<open>try\<close> block of process_vote: the world it returns is the world at
  the point where the block ended or raised.\<close>

definition vote_attempt :: "env \<Rightarrow> int \<Rightarrow> int \<Rightarrow> unit io" where
  "vote_attempt e user_id project_id w =
     (case insert_vote user_id project_id (db w) of
        Inl x \<Rightarrow> (Inl x, w)
      | Inr d1 \<Rightarrow>
          (case update_votes project_id d1 of
             Inl x \<Rightarrow> (Inl x, w\<lparr>db := d1\<rparr>)
           | Inr d2 \<Rightarrow> call_api e (SendMessage user_id VoteCounted) (w\<lparr>db := d2\<rparr>)))"

definition process_vote :: "env \<Rightarrow> int \<Rightarrow> int \<Rightarrow> unit io" where
  "process_vote e user_id project_id w =
     with_connection w
       (case vote_attempt e user_id project_id w of
          (Inr u, w1) \<Rightarrow> (Inr u, w1)
        | (Inl x, w1) \<Rightarrow>
            if x = IntegrityError then call_api e (SendMessage user_id AlreadyVoted) w1
            else call_api e (SendMessage user_id VoteFailed)
                   (logger_error (VoteProcessingError x) w1))"

text \<open>A run of the bot in which only votes arrive. The dispatcher logs what a handler
  raises and goes on with the next update.\<close>

definition process_votes :: "env \<Rightarrow> (int \<times> int) list \<Rightarrow> world \<Rightarrow> world" where
  "process_votes e calls w = fold (\<lambda>(u, p) w'. snd (process_vote e u p w')) calls w"

subsection \<open>Commands\<close>

text \<open>The keyboard built from \<^verbatim>\<open>SERVICE_TYPES.items()\<close>, in show_service_menu and in
  promote_service.\<close>

definition service_keyboard :: keyboard where
  "service_keyboard = map (\<lambda>(key, t). (ServiceLabel t, ''service_'' @ key)) SERVICE_TYPES"

definition show_service_menu :: "env \<Rightarrow> unit io" where
  "show_service_menu e w = call_api e (EditMessageText SelectServiceType service_keyboard) w"

text \<open>A line of the trends text needs the three fields of the coin; formatting a null
  change with \<^verbatim>\<open>:+.1f\<close> raises TypeError.\<close>

definition trend_line :: "coin \<Rightarrow> (string \<times> rat \<times> rat) option" where
  "trend_line c =
     (case price_change_percentage_24h c of
        None \<Rightarrow> None
      | Some ch \<Rightarrow> Some (symbol c, current_price c, ch))"

text \<open>The \<^verbatim>\<open>try\<close> block of crypto_trends, up to the reply on success.\<close>

definition fetch_trends :: "env \<Rightarrow> tg_update \<Rightarrow> unit io" where
  "fetch_trends e upd w =
     (let w1 = w\<lparr>clock := Suc (clock w)\<rparr>
      in case http_get e (clock w) of
           TimedOut \<Rightarrow> (Inl Timeout, w1)
         | ConnectFailed \<Rightarrow> (Inl ConnectionError, w1)
         | Response status body \<Rightarrow>
             if 400 \<le> status \<and> status < 600 then (Inl HTTPError, w1)
             else (case body of
                     Inl x \<Rightarrow> (Inl x, w1)
                   | Inr coins \<Rightarrow>
                       (case those (map trend_line coins) of
                          None \<Rightarrow> (Inl TypeError, w1)
                        | Some ls \<Rightarrow> reply_text e upd (TopCryptocurrencies ls) [] w1)))"

definition crypto_trends :: "env \<Rightarrow> tg_update \<Rightarrow> unit io" where
  "crypto_trends e upd w =
     (case fetch_trends e upd w of
        (Inr u, w1) \<Rightarrow> (Inr u, w1)
      | (Inl x, w1) \<Rightarrow>
          if is_RequestException x
          then reply_text e upd TrendsUnavailable [] (logger_error (TrendsApiError x) w1)
          else (Inl x, w1))"

text \<open>\<^verbatim>\<open>SELECT id, name, votes FROM projects ORDER BY votes DESC LIMIT 10\<close>. NULL sorts
  below every number, and rows of equal counter come in the order of their insertion:
  the sort is stable, so the rows are sorted upwards from the last to the first and the
  result is reversed.\<close>

definition top_projects :: "project list \<Rightarrow> project list" where
  "top_projects ps = take 10 (rev (sort_key proj_votes (rev ps)))"

definition vote_project :: "env \<Rightarrow> tg_update \<Rightarrow> unit io" where
  "vote_project e upd w =
     (case with_connection w
             (case projects (db w) of
                None \<Rightarrow> (Inl OperationalError, w)
              | Some ps \<Rightarrow> (Inr (top_projects ps), w)) of
        (Inl x, w1) \<Rightarrow> (Inl x, w1)
      | (Inr rows, w1) \<Rightarrow>
          if rows = [] then reply_text e upd NoProjects [] w1
          else reply_text e upd VoteForProjects
                 (map (\<lambda>p. (ProjectLabel (proj_name p) (proj_votes p),
                             ''vote_'' @ str_int (proj_id p))) rows) w1)"

text \<open>\<open>args\<close> is \<^verbatim>\<open>context.args\<close>, the words after the command.\<close>

definition promote_service :: "env \<Rightarrow> tg_update \<Rightarrow> string list \<Rightarrow> unit io" where
  "promote_service e upd args w =
     (if args = [] then reply_text e upd SelectServiceType service_keyboard w
      else case submit_service e (effective_user upd) ''custom'' (join args) w of
             (Inl x, w1) \<Rightarrow> (Inl x, w1)
           | (Inr _, w1) \<Rightarrow> reply_text e upd ServiceSubmitted [] w1)"

definition show_wallets :: "env \<Rightarrow> tg_update \<Rightarrow> unit io" where
  "show_wallets e upd w =
     (case with_connection w
             (case wallets (db w) of
                None \<Rightarrow> (Inl OperationalError, w)
              | Some rows \<Rightarrow> (Inr rows, w)) of
        (Inl x, w1) \<Rightarrow> (Inl x, w1)
      | (Inr rows, w1) \<Rightarrow> reply_text e upd (VerifiedWallets rows) [] w1)"

subsection \<open>Handlers of buttons and of free text\<close>

text \<open>The \<^verbatim>\<open>elif data.startswith('service_')\<close> branch: the prompt is formatted with
  \<^verbatim>\<open>SERVICE_TYPES[service_type]\<close>, which raises KeyError on a key that is not in the
  dictionary; the flag is set after the prompt was sent.\<close>

definition select_service :: "env \<Rightarrow> tg_update \<Rightarrow> string \<Rightarrow> unit io" where
  "select_service e upd service_type w =
     (case map_of SERVICE_TYPES service_type of
        None \<Rightarrow> (Inl KeyError, w)
      | Some l \<Rightarrow>
          (case call_api e (EditMessageText (DescribeService l) []) w of
             (Inl x, w1) \<Rightarrow> (Inl x, w1)
           | (Inr _, w1) \<Rightarrow>
               (Inr (), w1\<lparr>user_data := (user_data w1)(effective_user upd := Some service_type)\<rparr>)))"

text \<open>The chain of \<^verbatim>\<open>if\<close>/\<^verbatim>\<open>elif\<close> of button_handler, in the order of the source.\<close>

definition dispatch :: "env \<Rightarrow> tg_update \<Rightarrow> tg_query \<Rightarrow> unit io" where
  "dispatch e upd query w =
     (if prefix ''vote_'' (data query) then
        (case py_int e (drop 5 (data query)) of
           None \<Rightarrow> (Inl ValueError, w)
         | Some project_id \<Rightarrow> process_vote e (from_user query) project_id w)
      else if prefix ''service_'' (data query) then
        select_service e upd (drop 8 (data query)) w
      else if data query = ''service_menu'' then show_service_menu e w
      else if data query = ''vote_menu'' then vote_project e upd w
      else if data query = ''trends'' then crypto_trends e upd w
      else if data query = ''wallets'' then show_wallets e upd w
      else (Inr (), w))"

definition button_handler :: "env \<Rightarrow> tg_update \<Rightarrow> unit io" where
  "button_handler e upd w =
     (case callback_query upd of
        None \<Rightarrow> (Inl AttributeError, w)
      | Some query \<Rightarrow>
          (case call_api e Answer w of
             (Inl x, w1) \<Rightarrow> (Inl x, w1)
           | (Inr _, w1) \<Rightarrow> dispatch e upd query w1))"

definition handle_service_description :: "env \<Rightarrow> tg_update \<Rightarrow> unit io" where
  "handle_service_description e upd w =
     (case user_data w (effective_user upd) of
        None \<Rightarrow> (Inr (), w)
      | Some service_type \<Rightarrow>
          (case message upd of
             None \<Rightarrow> (Inl AttributeError, w)
           | Some description \<Rightarrow>
               (case submit_service e (effective_user upd) service_type description w of
                  (Inl x, w1) \<Rightarrow> (Inl x, w1)
                | (Inr _, w1) \<Rightarrow>
                    reply_text e upd ServiceSubmitted []
                      (w1\<lparr>user_data := (user_data w1)(effective_user upd := None)\<rparr>))))"

subsection \<open>Properties of states and traces\<close>

text \<open>The number of vote rows whose project identifier is \<open>pid\<close>.\<close>

definition vote_rows :: "database \<Rightarrow> int \<Rightarrow> nat" where
  "vote_rows d pid =
     (case votes d of None \<Rightarrow> 0 | Some vs \<Rightarrow> length (filter (\<lambda>v. snd v = pid) vs))"

text \<open>Every project row carries, as its counter, the number of vote rows for it.\<close>

definition counters_match :: "database \<Rightarrow> bool" where
  "counters_match d =
     (case projects d of
        None \<Rightarrow> True
      | Some ps \<Rightarrow> list_all (\<lambda>p. proj_votes p = Some (int (vote_rows d (proj_id p)))) ps)"

text \<open>How a round of the notification loop ended for an administrator: the notice went
  through, or the failure was logged under the administrator's identifier.\<close>

fun admin_outcome :: "event \<Rightarrow> int option" where
  "admin_outcome (Api (SendMessage a (NewServiceSubmission t u d)) True) = Some a"
| "admin_outcome (Log (NotifyFailed a x)) = Some a"
| "admin_outcome ev = None"

text \<open>An event of the notification loop: a message sent to an administrator, or a line
  of the log. A reply to the update is none.\<close>

fun notice_event :: "event \<Rightarrow> bool" where
  "notice_event (Api (SendMessage a t) ok) = True"
| "notice_event (Log l) = True"
| "notice_event ev = False"

text \<open>The events a handler added to the trace of the world \<open>w\<close> it started from.\<close>

definition new_events :: "world \<Rightarrow> world \<Rightarrow> event list" where
  "new_events w w' = drop (length (trace w)) (trace w')"

subsection \<open>Concrete scenarios\<close>

text \<open>Two environments and a few states and updates, for the examples below. No example
  holds a text outside ASCII, so \<open>int_unicode\<close> is never consulted in them.\<close>

definition calm_env :: env where
  "calm_env =
     \<lparr>ADMIN_IDS = [7, 8], api_fails = (\<lambda>n. False),
      chat_username = (\<lambda>n u. Inr ''alice''), http_get = (\<lambda>n. TimedOut),
      int_unicode = (\<lambda>s. None)\<rparr>"

definition rough_env :: env where
  "rough_env =
     \<lparr>ADMIN_IDS = [7, 8, 9], api_fails = (\<lambda>n. n = 2),
      chat_username = (\<lambda>n u. if n = 0 then Inl AttributeError else Inr ''bob''),
      http_get = (\<lambda>n. Response 503 (Inl InvalidJSONError)),
      int_unicode = (\<lambda>s. None)\<rparr>"

definition fresh_world :: world where
  "fresh_world =
     \<lparr>db = init_db empty_database, user_data = (\<lambda>u. None), trace = [], clock = 0\<rparr>"

definition alpha :: project where
  "alpha = \<lparr>proj_id = 1, proj_name = ''Alpha'', proj_description = None,
            proj_votes = Some 0, proj_submitted_by = None\<rparr>"

definition beta :: project where
  "beta = \<lparr>proj_id = 2, proj_name = ''Beta'', proj_description = Some ''a bridge'',
           proj_votes = Some 0, proj_submitted_by = Some 40\<rparr>"

text \<open>The fresh database after two projects were listed.\<close>

definition listed_world :: world where
  "listed_world =
     fresh_world\<lparr>db := (init_db empty_database)\<lparr>projects := Some [alpha, beta]\<rparr>\<rparr>"

text \<open>The same after user 5 voted for project 1.\<close>

definition voted_world :: world where
  "voted_world =
     fresh_world\<lparr>db := (init_db empty_database)
       \<lparr>projects := Some [alpha\<lparr>proj_votes := Some 1\<rparr>, beta], votes := Some [(5, 1)]\<rparr>\<rparr>"

definition button :: "int \<Rightarrow> string \<Rightarrow> tg_update" where
  "button u d =
     \<lparr>message = None, callback_query = Some \<lparr>from_user = u, data = d\<rparr>, effective_user = u\<rparr>"

definition text_message :: "int \<Rightarrow> string \<Rightarrow> tg_update" where
  "text_message u t = \<lparr>message = Some t, callback_query = None, effective_user = u\<rparr>"

text \<open>A command that arrives as the edit of a message: the update has the edited message
  and no \<^verbatim>\<open>update.message\<close>.\<close>

definition edited_command :: "int \<Rightarrow> tg_update" where
  "edited_command u = \<lparr>message = None, callback_query = None, effective_user = u\<rparr>"

section \<open>Initialisation and the wallet listing\<close>

lemma init_db_idem: "init_db (init_db d) = init_db d"
  by (cases d) (auto simp: init_db_def create_if_not_exists_def sample_wallets_def Let_def
      split: option.splits)

text \<open>
  Running init_db a second time changes nothing, and a table that exists keeps its
  rows. The BTC and ETH rows are inserted when the wallets table is new or empty, and
  only then: a wallets table with a row is left as it is. On the database that init_db
  makes from an empty file, a wallets request that arrives as a message (the
  \<^verbatim>\<open>/wallets\<close> command) reads nothing else and replies with exactly these two entries,
  in this order.
\<close>

theorem wallets_seeded_once:
  "init_db (init_db d) = init_db d
   \<and> (wallets d = None \<or> wallets d = Some [] \<longrightarrow>
        wallets (init_db d)
          = Some [(''BTC'', ''1A1zP1eP5QGefi2DMPTfTL5SLmv7DivfNa''),
                  (''ETH'', ''0x742d35Cc6634C0532925a3b844Bc454e4438f44e'')])
   \<and> (wallets d = Some (r # rs) \<longrightarrow> wallets (init_db d) = Some (r # rs))
   \<and> (projects d = Some ps \<longrightarrow> projects (init_db d) = Some ps)
   \<and> (services d = Some ss \<longrightarrow> services (init_db d) = Some ss)
   \<and> (votes d = Some vs \<longrightarrow> votes (init_db d) = Some vs)
   \<and> (db w = init_db empty_database \<and> message upd = Some m \<longrightarrow>
        db (snd (show_wallets e upd w)) = db w
        \<and> new_events w (snd (show_wallets e upd w))
            = [Api (ReplyText
                      (VerifiedWallets
                         [(''BTC'', ''1A1zP1eP5QGefi2DMPTfTL5SLmv7DivfNa''),
                          (''ETH'', ''0x742d35Cc6634C0532925a3b844Bc454e4438f44e'')]) [])
                   (\<not> api_fails e (clock w))])"
proof (intro conjI impI)
  show "init_db (init_db d) = init_db d" by (rule init_db_idem)
next
  assume "wallets d = None \<or> wallets d = Some []"
  then show "wallets (init_db d)
          = Some [(''BTC'', ''1A1zP1eP5QGefi2DMPTfTL5SLmv7DivfNa''),
                  (''ETH'', ''0x742d35Cc6634C0532925a3b844Bc454e4438f44e'')]"
    by (auto simp: init_db_def create_if_not_exists_def sample_wallets_def)
next
  assume "wallets d = Some (r # rs)"
  then show "wallets (init_db d) = Some (r # rs)"
    by (simp add: init_db_def create_if_not_exists_def)
next
  assume "projects d = Some ps"
  then show "projects (init_db d) = Some ps"
    by (simp add: init_db_def create_if_not_exists_def Let_def)
next
  assume "services d = Some ss"
  then show "services (init_db d) = Some ss"
    by (simp add: init_db_def create_if_not_exists_def Let_def)
next
  assume "votes d = Some vs"
  then show "votes (init_db d) = Some vs"
    by (simp add: init_db_def create_if_not_exists_def Let_def)
next
  assume a: "db w = init_db empty_database \<and> message upd = Some m"
  then show "db (snd (show_wallets e upd w)) = db w"
    by (simp add: show_wallets_def with_connection_def reply_text_def call_api_def Let_def
       init_db_def empty_database_def create_if_not_exists_def)
next
  assume a: "db w = init_db empty_database \<and> message upd = Some m"
  then show "new_events w (snd (show_wallets e upd w))
            = [Api (ReplyText
                      (VerifiedWallets
                         [(''BTC'', ''1A1zP1eP5QGefi2DMPTfTL5SLmv7DivfNa''),
                          (''ETH'', ''0x742d35Cc6634C0532925a3b844Bc454e4438f44e'')]) [])
                   (\<not> api_fails e (clock w))]"
    by (simp add: show_wallets_def with_connection_def reply_text_def call_api_def Let_def
       init_db_def empty_database_def create_if_not_exists_def sample_wallets_def new_events_def)
qed

theorem wallets_seeded_once_witness:
  "(wallets empty_database = None \<or> wallets empty_database = Some [])
   \<and> init_db (init_db empty_database) = init_db empty_database
   \<and> wallets (init_db empty_database)
       = Some [(''BTC'', ''1A1zP1eP5QGefi2DMPTfTL5SLmv7DivfNa''),
               (''ETH'', ''0x742d35Cc6634C0532925a3b844Bc454e4438f44e'')]
   \<and> wallets ((db voted_world)\<lparr>wallets := Some [(''SOL'', ''So11'')]\<rparr>) = Some ((''SOL'', ''So11'') # [])
   \<and> wallets (init_db ((db voted_world)\<lparr>wallets := Some [(''SOL'', ''So11'')]\<rparr>))
       = Some [(''SOL'', ''So11'')]
   \<and> projects (db voted_world) = Some [alpha\<lparr>proj_votes := Some 1\<rparr>, beta]
   \<and> projects (init_db (db voted_world)) = Some [alpha\<lparr>proj_votes := Some 1\<rparr>, beta]
   \<and> services (db voted_world) = Some []
   \<and> services (init_db (db voted_world)) = Some []
   \<and> votes (db voted_world) = Some [(5, 1)]
   \<and> votes (init_db (db voted_world)) = Some [(5, 1)]
   \<and> db fresh_world = init_db empty_database
   \<and> message (text_message 5 ''/wallets'') = Some ''/wallets''
   \<and> new_events fresh_world (snd (show_wallets rough_env (text_message 5 ''/wallets'') fresh_world))
       = [Api (ReplyText
                 (VerifiedWallets
                    [(''BTC'', ''1A1zP1eP5QGefi2DMPTfTL5SLmv7DivfNa''),
                     (''ETH'', ''0x742d35Cc6634C0532925a3b844Bc454e4438f44e'')]) [])
              True]"
proof -
  have tabs: "projects (db voted_world) = Some [alpha\<lparr>proj_votes := Some 1\<rparr>, beta]"
    "services (db voted_world) = Some []" "votes (db voted_world) = Some [(5, 1)]"
    by (simp_all add: voted_world_def fresh_world_def init_db_def empty_database_def
        create_if_not_exists_def)
  have fresh: "db fresh_world = init_db empty_database" "clock fresh_world = 0"
    by (simp_all add: fresh_world_def)
  have e: "wallets empty_database = None" by (simp add: empty_database_def)
  show ?thesis
    using wallets_seeded_once
        [of empty_database "(''SOL'', ''So11'')" "[]" "[]" "[]" "[]" fresh_world
            "text_message 5 ''/wallets''" "''/wallets''" rough_env]
      wallets_seeded_once
        [of "(db voted_world)\<lparr>wallets := Some [(''SOL'', ''So11'')]\<rparr>" "(''SOL'', ''So11'')" "[]"
            "[alpha\<lparr>proj_votes := Some 1\<rparr>, beta]" "[]" "[(5, 1)]" fresh_world
            "text_message 5 ''/wallets''" "''/wallets''" rough_env]
      wallets_seeded_once
        [of "db voted_world" "(''SOL'', ''So11'')" "[]"
            "[alpha\<lparr>proj_votes := Some 1\<rparr>, beta]" "[]" "[(5, 1)]" fresh_world
            "text_message 5 ''/wallets''" "''/wallets''" rough_env]
      tabs fresh e
    by (simp add: text_message_def rough_env_def)
qed

text \<open>
  C6. A wallets request before any other insertion is to return exactly the BTC and the
  ETH entry. The request made with the button \<^verbatim>\<open>wallets\<close> of the start menu does not: on
  the database that init_db makes from an empty file, button_handler acknowledges the
  press and calls show_wallets, which reads the two rows and replies through
  \<^verbatim>\<open>update.message\<close>. The update of a button press has no message, so AttributeError
  leaves the handler and nothing is sent, in every environment.
\<close>

theorem wallets_button_shows_nothing:
  "button_handler e
     \<lparr>message = None, callback_query = Some \<lparr>from_user = u, data = ''wallets''\<rparr>,
      effective_user = u\<rparr>
     (w\<lparr>db := init_db empty_database\<rparr>)
   = (if api_fails e (clock w) then Inl TelegramError else Inl AttributeError,
      w\<lparr>db := init_db empty_database,
        trace := trace w @ [Api Answer (\<not> api_fails e (clock w))],
        clock := Suc (clock w)\<rparr>)"
  by (simp add: button_handler_def dispatch_def show_wallets_def reply_text_def
      with_connection_def call_api_def Let_def init_db_def empty_database_def
      create_if_not_exists_def)

section \<open>Voting\<close>

lemmas vote_defs = process_vote_def vote_attempt_def insert_vote_def update_votes_def
  call_api_def with_connection_def logger_error_def

lemma process_vote_duplicate:
  assumes "votes (db w) = Some vs" and "(user_id, project_id) \<in> set vs"
  shows "process_vote e user_id project_id w =
           (if api_fails e (clock w) then Inl TelegramError else Inr (),
            w\<lparr>trace := trace w
                 @ [Api (SendMessage user_id AlreadyVoted) (\<not> api_fails e (clock w))],
              clock := Suc (clock w)\<rparr>)"
  using assms by (simp add: vote_defs Let_def)

lemma process_vote_fresh:
  assumes "votes (db w) = Some vs" and "(u, p) \<notin> set vs" and "sqlite_integer p"
    and "projects (db w) = Some ps" and "\<not> api_fails e (clock w)"
  shows "process_vote e u p w =
           (Inr (),
            w\<lparr>db := (db w)\<lparr>votes := Some (vs @ [(u, p)]),
                            projects := Some (map (bump p) ps)\<rparr>,
              trace := trace w @ [Api (SendMessage u VoteCounted) True],
              clock := Suc (clock w)\<rparr>)"
  using assms by (simp add: vote_defs Let_def)

text \<open>A project identifier that the store cannot hold: whatever else happens, nothing is
  written.\<close>

lemma process_vote_overflow:
  assumes "\<not> sqlite_integer p"
  shows "db (snd (process_vote e u p w)) = db w"
  using assms by (simp add: vote_defs Let_def split: option.splits)

lemma process_votes_overflow:
  assumes "\<not> sqlite_integer pid"
  shows "db (process_votes e (map (\<lambda>x. (x, pid)) us) w) = db w"
proof (induction us arbitrary: w)
  case Nil
  show ?case by (simp add: process_votes_def)
next
  case (Cons x us)
  have "db (process_votes e (map (\<lambda>x. (x, pid)) us) (snd (process_vote e x pid w)))
          = db (snd (process_vote e x pid w))"
    by (rule Cons.IH)
  then show ?case by (simp add: process_votes_def process_vote_overflow [OF assms])
qed


text \<open>
  C1. When the vote row \<open>(user_id, project_id)\<close> is already in the votes table,
  process_vote leaves the whole database as it was (no second row, every counter
  unchanged), and the one thing it does is to send the "already voted" text to the user.
  This holds whatever the chat transport does; the handler ends normally exactly when
  that message went through.
\<close>

theorem second_vote_rejected:
  assumes "votes (db w) = Some vs" and "(user_id, project_id) \<in> set vs"
  shows "votes (db (snd (process_vote e user_id project_id w))) = Some vs
       \<and> projects (db (snd (process_vote e user_id project_id w))) = projects (db w)
       \<and> db (snd (process_vote e user_id project_id w)) = db w
       \<and> new_events w (snd (process_vote e user_id project_id w))
           = [Api (SendMessage user_id AlreadyVoted) (\<not> api_fails e (clock w))]
       \<and> fst (process_vote e user_id project_id w)
           = (if api_fails e (clock w) then Inl TelegramError else Inr ())"
  using assms by (simp add: process_vote_duplicate [OF assms] new_events_def)

theorem second_vote_rejected_witness:
  "votes (db voted_world) = Some [(5, 1)] \<and> (5, 1) \<in> set [(5 :: int, 1 :: int)]
   \<and> votes (db (snd (process_vote rough_env 5 1 voted_world))) = Some [(5, 1)]
   \<and> projects (db (snd (process_vote rough_env 5 1 voted_world)))
       = Some [alpha\<lparr>proj_votes := Some 1\<rparr>, beta]
   \<and> new_events voted_world (snd (process_vote rough_env 5 1 voted_world))
       = [Api (SendMessage 5 AlreadyVoted) True]
   \<and> fst (process_vote rough_env 5 1 voted_world) = Inr ()"
  using second_vote_rejected [of voted_world "[(5, 1)]" 5 1 rough_env]
  by (simp add: voted_world_def fresh_world_def rough_env_def)

subsection \<open>The counter and the vote rows\<close>

lemma process_vote_db_cases:
  "db (snd (process_vote e u p w)) = db w
   \<or> (\<exists>vs. votes (db w) = Some vs \<and> (u, p) \<notin> set vs
        \<and> ((projects (db w) = None
              \<and> db (snd (process_vote e u p w)) = (db w)\<lparr>votes := Some (vs @ [(u, p)])\<rparr>)
            \<or> (\<exists>ps. projects (db w) = Some ps
                 \<and> db (snd (process_vote e u p w))
                     = (db w)\<lparr>votes := Some (vs @ [(u, p)]),
                              projects := Some (map (bump p) ps)\<rparr>)))"
  by (auto simp: vote_defs Let_def split: option.splits)

lemma counters_match_vote:
  assumes "counters_match d" and "votes d = Some vs" and "projects d = Some ps"
  shows "counters_match (d\<lparr>votes := Some (vs @ [(u, p)]), projects := Some (map (bump p) ps)\<rparr>)"
  using assms
  by (auto simp: counters_match_def vote_rows_def list_all_iff bump_def)

lemma counters_match_vote_only:
  assumes "projects d = None"
  shows "counters_match (d\<lparr>votes := Some vs'\<rparr>)"
  using assms by (simp add: counters_match_def)

lemma counters_match_process_vote:
  assumes "counters_match (db w)"
  shows "counters_match (db (snd (process_vote e u p w)))"
  using process_vote_db_cases [of e u p w] assms
  by (auto simp: counters_match_vote counters_match_vote_only)

lemma counters_match_process_votes:
  "counters_match (db w) \<Longrightarrow> counters_match (db (process_votes e calls w))"
proof (induction calls arbitrary: w)
  case Nil
  then show ?case by (simp add: process_votes_def)
next
  case (Cons c calls)
  obtain u p where c: "c = (u, p)" by (cases c)
  have "counters_match (db (snd (process_vote e u p w)))"
    using Cons.prems by (rule counters_match_process_vote)
  then have "counters_match (db (process_votes e calls (snd (process_vote e u p w))))"
    by (rule Cons.IH)
  then show ?case by (simp add: process_votes_def c)
qed

lemma counters_match_fresh: "counters_match (init_db empty_database)"
  by (simp add: counters_match_def init_db_def empty_database_def create_if_not_exists_def)

text \<open>Votes of distinct users who have not voted for \<open>pid\<close> yet, over a transport that
  delivers: every one of them adds its row.\<close>

lemma process_votes_new_voters:
  assumes "\<forall>n. \<not> api_fails e n" and "sqlite_integer pid" and "distinct us"
    and "votes (db w) = Some vs" and "projects (db w) = Some ps"
    and "\<forall>x\<in>set us. (x, pid) \<notin> set vs"
  shows "votes (db (process_votes e (map (\<lambda>x. (x, pid)) us) w))
           = Some (vs @ map (\<lambda>x. (x, pid)) us)
         \<and> (\<exists>ps'. projects (db (process_votes e (map (\<lambda>x. (x, pid)) us) w)) = Some ps'
                \<and> map proj_id ps' = map proj_id ps)"
  using assms(3-)
proof (induction us arbitrary: w vs ps)
  case Nil
  then show ?case by (simp add: process_votes_def)
next
  case (Cons x us)
  let ?w1 = "snd (process_vote e x pid w)"
  have new: "(x, pid) \<notin> set vs" using Cons.prems(4) by simp
  have step: "process_vote e x pid w =
           (Inr (),
            w\<lparr>db := (db w)\<lparr>votes := Some (vs @ [(x, pid)]),
                            projects := Some (map (bump pid) ps)\<rparr>,
              trace := trace w @ [Api (SendMessage x VoteCounted) True],
              clock := Suc (clock w)\<rparr>)"
    using Cons.prems(2) new Cons.prems(3) assms(1,2) by (intro process_vote_fresh) auto
  have v1: "votes (db ?w1) = Some (vs @ [(x, pid)])" by (simp add: step)
  have p1: "projects (db ?w1) = Some (map (bump pid) ps)" by (simp add: step)
  have d: "distinct us" using Cons.prems(1) by simp
  have fresh: "\<forall>y\<in>set us. (y, pid) \<notin> set (vs @ [(x, pid)])"
    using Cons.prems(1,4) by auto
  have ids: "map (proj_id \<circ> bump pid) ps = map proj_id ps"
    by (simp add: bump_def)
  from Cons.IH [OF d v1 p1 fresh]
  show ?case by (simp add: process_votes_def ids)
qed

text \<open>
  C2. The counter of every project row equals the number of vote rows for that project:
  this holds in the freshly initialised database, and any sequence of process_vote calls
  keeps it, from every database in which it holds (so also once projects were listed
  with counter 0), whatever the chat transport does. In particular, when \<open>N\<close> distinct
  users who have no vote row for project \<open>pid\<close> vote for it, no vote row for \<open>pid\<close>
  existed before and every vote succeeds, each row of project \<open>pid\<close> has counter \<open>N\<close>.
  A vote can succeed only for an identifier that the store can hold, as the key of every
  project row is; votes for another identifier write nothing.
\<close>

theorem counter_counts_vote_rows:
  "counters_match (init_db empty_database)
   \<and> (counters_match (db w) \<longrightarrow> counters_match (db (process_votes e calls w)))
   \<and> (counters_match (db w) \<and> votes (db w) = Some vs \<and> projects (db w) = Some ps
        \<and> (\<forall>v\<in>set vs. snd v \<noteq> pid) \<and> distinct us \<and> (\<forall>n. \<not> api_fails e n)
        \<and> sqlite_integer pid
      \<longrightarrow> (\<exists>ps'. projects (db (process_votes e (map (\<lambda>x. (x, pid)) us) w)) = Some ps'
             \<and> map proj_id ps' = map proj_id ps
             \<and> list_all (\<lambda>p. proj_id p = pid \<longrightarrow> proj_votes p = Some (int (length us))) ps'))
   \<and> (\<not> sqlite_integer pid
      \<longrightarrow> db (process_votes e (map (\<lambda>x. (x, pid)) us) w) = db w)"
proof (intro conjI impI)
  show "counters_match (init_db empty_database)" by (rule counters_match_fresh)
next
  assume "counters_match (db w)"
  then show "counters_match (db (process_votes e calls w))"
    by (rule counters_match_process_votes)
next
  let ?w' = "process_votes e (map (\<lambda>x. (x, pid)) us) w"
  assume h: "counters_match (db w) \<and> votes (db w) = Some vs \<and> projects (db w) = Some ps
        \<and> (\<forall>v\<in>set vs. snd v \<noteq> pid) \<and> distinct us \<and> (\<forall>n. \<not> api_fails e n)
        \<and> sqlite_integer pid"
  then have none: "\<forall>x\<in>set us. (x, pid) \<notin> set vs" by force
  from h none obtain ps' where
    v: "votes (db ?w') = Some (vs @ map (\<lambda>x. (x, pid)) us)"
    and p: "projects (db ?w') = Some ps'" and ids: "map proj_id ps' = map proj_id ps"
    using process_votes_new_voters [of e pid us w vs ps] by blast
  have "filter (\<lambda>v. snd v = pid) vs = []" using h by (auto simp: filter_empty_conv)
  then have rows: "vote_rows (db ?w') pid = length us"
    by (simp add: vote_rows_def v comp_def)
  have "counters_match (db ?w')" using h by (intro counters_match_process_votes) simp
  then have "list_all (\<lambda>p. proj_id p = pid \<longrightarrow> proj_votes p = Some (int (length us))) ps'"
    using rows by (auto simp: counters_match_def p list_all_iff)
  with p ids show "\<exists>ps'. projects (db ?w') = Some ps' \<and> map proj_id ps' = map proj_id ps
             \<and> list_all (\<lambda>p. proj_id p = pid \<longrightarrow> proj_votes p = Some (int (length us))) ps'"
    by blast
next
  assume "\<not> sqlite_integer pid"
  then show "db (process_votes e (map (\<lambda>x. (x, pid)) us) w) = db w"
    by (rule process_votes_overflow)
qed

theorem counter_counts_vote_rows_witness:
  "counters_match (db listed_world) \<and> votes (db listed_world) = Some []
   \<and> projects (db listed_world) = Some [alpha, beta]
   \<and> distinct [5, 6, 7 :: int]
   \<and> (\<forall>n. \<not> api_fails calm_env n) \<and> sqlite_integer 1
   \<and> counters_match (db (process_votes calm_env [(5, 1), (6, 2), (5, 1), (5, 3)] listed_world))
   \<and> (\<exists>ps'. projects (db (process_votes calm_env (map (\<lambda>x. (x, 1)) [5, 6, 7]) listed_world))
               = Some ps'
          \<and> map proj_id ps' = map proj_id [alpha, beta]
          \<and> list_all (\<lambda>p. proj_id p = 1 \<longrightarrow> proj_votes p = Some (int (length [5, 6, 7 :: int])))
               ps')"
proof -
  have inv: "counters_match (db listed_world)"
    by (simp add: counters_match_def vote_rows_def listed_world_def fresh_world_def
        init_db_def empty_database_def create_if_not_exists_def alpha_def beta_def)
  have tabs: "votes (db listed_world) = Some [] \<and> projects (db listed_world) = Some [alpha, beta]"
    by (simp add: listed_world_def fresh_world_def init_db_def empty_database_def
        create_if_not_exists_def)
  have quiet: "\<forall>n. \<not> api_fails calm_env n" by (simp add: calm_env_def)
  have range: "sqlite_integer 1" by (simp add: sqlite_integer_def)
  show ?thesis
    using counter_counts_vote_rows
      [of listed_world calm_env "[(5, 1), (6, 2), (5, 1), (5, 3)]" "[]" "[alpha, beta]" 1
          "[5, 6, 7]"]
      inv tabs quiet range
    by simp
qed




section \<open>Service submission\<close>

lemma map_filter_append:
  "List.map_filter f (xs @ ys) = List.map_filter f xs @ List.map_filter f ys"
  by (simp add: List.map_filter_def)

lemma notify_admin_effect:
  "\<exists>evs. trace (notify_admin e u t d a w) = trace w @ evs
       \<and> List.map_filter admin_outcome evs = [a]
       \<and> list_all notice_event evs
       \<and> db (notify_admin e u t d a w) = db w
       \<and> user_data (notify_admin e u t d a w) = user_data w"
  by (auto simp: notify_admin_def call_api_def logger_error_def Let_def
      split: sum.splits)

lemma notify_all_effect:
  "\<exists>evs. trace (fold (notify_admin e u t d) as w) = trace w @ evs
       \<and> List.map_filter admin_outcome evs = as
       \<and> list_all notice_event evs
       \<and> db (fold (notify_admin e u t d) as w) = db w
       \<and> user_data (fold (notify_admin e u t d) as w) = user_data w"
proof (induction as arbitrary: w)
  case Nil
  show ?case by simp
next
  case (Cons a as)
  let ?w1 = "notify_admin e u t d a w"
  obtain evs1 where 1: "trace ?w1 = trace w @ evs1" "List.map_filter admin_outcome evs1 = [a]"
    "list_all notice_event evs1" "db ?w1 = db w" "user_data ?w1 = user_data w"
    using notify_admin_effect [of e u t d a w] by blast
  obtain evs2 where 2: "trace (fold (notify_admin e u t d) as ?w1) = trace ?w1 @ evs2"
    "List.map_filter admin_outcome evs2 = as" "list_all notice_event evs2"
    "db (fold (notify_admin e u t d) as ?w1) = db ?w1"
    "user_data (fold (notify_admin e u t d) as ?w1) = user_data ?w1"
    using Cons.IH [of ?w1] by blast
  show ?case
    by (rule exI [of _ "evs1 @ evs2"]) (simp add: 1 2 map_filter_append)
qed

text \<open>What submit_service does when the services table exists: it returns, with the row
  appended and one round of the loop for each administrator.\<close>

lemma submit_service_effect:
  assumes "services (db w) = Some rows"
  shows "\<exists>w' evs. submit_service e user_id service_type description w = (Inr (), w')
       \<and> trace w' = trace w @ evs
       \<and> List.map_filter admin_outcome evs = ADMIN_IDS e
       \<and> list_all notice_event evs
       \<and> db w' = (db w)\<lparr>services := Some (rows @
                 [\<lparr>svc_user_id = user_id, svc_service_type = service_type,
                   svc_description = description, svc_price = None,
                   svc_is_active = True\<rparr>])\<rparr>
       \<and> user_data w' = user_data w"
proof -
  let ?row = "\<lparr>svc_user_id = user_id, svc_service_type = service_type,
                   svc_description = description, svc_price = None,
                   svc_is_active = True\<rparr>"
  let ?w1 = "w\<lparr>db := (db w)\<lparr>services := Some (rows @ [?row])\<rparr>\<rparr>"
  have run: "submit_service e user_id service_type description w
               = (Inr (), fold (notify_admin e user_id service_type description) (ADMIN_IDS e) ?w1)"
    using assms by (simp add: submit_service_def insert_service_def with_connection_def)
  obtain evs where
    "trace (fold (notify_admin e user_id service_type description) (ADMIN_IDS e) ?w1)
       = trace ?w1 @ evs"
    "List.map_filter admin_outcome evs = ADMIN_IDS e" "list_all notice_event evs"
    "db (fold (notify_admin e user_id service_type description) (ADMIN_IDS e) ?w1) = db ?w1"
    "user_data (fold (notify_admin e user_id service_type description) (ADMIN_IDS e) ?w1)
       = user_data ?w1"
    using notify_all_effect [of e user_id service_type description "ADMIN_IDS e" ?w1] by blast
  then show ?thesis by (simp add: run)
qed



section \<open>Market trends\<close>

text \<open>
  A trends request that arrives as a message (the \<^verbatim>\<open>/trends\<close> command), in which the
  market-data call times out, fails at the network level or answers with a 4xx or 5xx
  status: the handler logs the request exception and replies with the fallback text that
  points to \<^verbatim>\<open>/wallets\<close> and \<^verbatim>\<open>/vote\<close>; it does nothing else, and the database and
  the session flags are unchanged. With that reply delivered the handler ends normally.
\<close>

theorem trends_fallback:
  assumes "http_get e (clock w) = TimedOut \<or> http_get e (clock w) = ConnectFailed
           \<or> (\<exists>status body. http_get e (clock w) = Response status body
                 \<and> 400 \<le> status \<and> status < 600)"
    and "message upd = Some m"
  shows "(\<exists>x. is_RequestException x
              \<and> new_events w (snd (crypto_trends e upd w))
                  = [Log (TrendsApiError x),
                     Api (ReplyText TrendsUnavailable []) (\<not> api_fails e (Suc (clock w)))])
       \<and> db (snd (crypto_trends e upd w)) = db w
       \<and> user_data (snd (crypto_trends e upd w)) = user_data w
       \<and> (\<not> api_fails e (Suc (clock w)) \<longrightarrow> fst (crypto_trends e upd w) = Inr ())"
  using assms
  by (auto simp: crypto_trends_def fetch_trends_def reply_text_def call_api_def
      logger_error_def new_events_def Let_def)

theorem trends_fallback_witness:
  "(http_get rough_env (clock fresh_world) = TimedOut
      \<or> http_get rough_env (clock fresh_world) = ConnectFailed
      \<or> (\<exists>status body. http_get rough_env (clock fresh_world) = Response status body
            \<and> 400 \<le> status \<and> status < 600))
   \<and> message (text_message 5 ''/trends'') = Some ''/trends''
   \<and> \<not> api_fails rough_env (Suc (clock fresh_world))
   \<and> fst (crypto_trends rough_env (text_message 5 ''/trends'') fresh_world) = Inr ()
   \<and> (\<exists>x. is_RequestException x
          \<and> new_events fresh_world
               (snd (crypto_trends rough_env (text_message 5 ''/trends'') fresh_world))
              = [Log (TrendsApiError x), Api (ReplyText TrendsUnavailable []) True])"
  using trends_fallback [of rough_env fresh_world "text_message 5 ''/trends''" "''/trends''"]
  by (simp add: rough_env_def fresh_world_def text_message_def)

text \<open>
  C8. Every trends request in which the market-data call fails is to be answered with
  the fallback text, and no error is to leave the handler. The request made with the
  button \<^verbatim>\<open>trends\<close> of the start menu is not: button_handler acknowledges the press and
  calls crypto_trends, the call times out, fails at the network level or answers with a
  4xx or 5xx status, the handler catches and logs the request exception and then
  replies through \<^verbatim>\<open>update.message\<close>. The update of a button press has no message, so
  AttributeError leaves the handler, unhandled, and no fallback text is sent.
\<close>

theorem trends_button_failure_unhandled:
  assumes "http_get e (Suc (clock w)) = TimedOut \<or> http_get e (Suc (clock w)) = ConnectFailed
           \<or> (\<exists>status body. http_get e (Suc (clock w)) = Response status body
                 \<and> 400 \<le> status \<and> status < 600)"
    and "message upd = None" and "callback_query upd = Some query"
    and "data query = ''trends''" and "\<not> api_fails e (clock w)"
  shows "fst (button_handler e upd w) = Inl AttributeError
       \<and> (\<exists>x. is_RequestException x
              \<and> new_events w (snd (button_handler e upd w))
                  = [Api Answer True, Log (TrendsApiError x)])"
  using assms
  by (auto simp: button_handler_def dispatch_def crypto_trends_def fetch_trends_def
      reply_text_def call_api_def logger_error_def new_events_def Let_def)

theorem trends_button_failure_unhandled_witness:
  "(http_get calm_env (Suc (clock fresh_world)) = TimedOut
      \<or> http_get calm_env (Suc (clock fresh_world)) = ConnectFailed
      \<or> (\<exists>status body. http_get calm_env (Suc (clock fresh_world)) = Response status body
            \<and> 400 \<le> status \<and> status < 600))
   \<and> message (button 5 ''trends'') = None
   \<and> callback_query (button 5 ''trends'') = Some \<lparr>from_user = 5, data = ''trends''\<rparr>
   \<and> \<not> api_fails calm_env (clock fresh_world)
   \<and> fst (button_handler calm_env (button 5 ''trends'') fresh_world) = Inl AttributeError
   \<and> (\<exists>x. is_RequestException x
          \<and> new_events fresh_world (snd (button_handler calm_env (button 5 ''trends'') fresh_world))
              = [Api Answer True, Log (TrendsApiError x)])"
  using trends_button_failure_unhandled
    [of calm_env fresh_world "button 5 ''trends''" "\<lparr>from_user = 5, data = ''trends''\<rparr>"]
  by (simp add: calm_env_def fresh_world_def button_def)

section \<open>The promotion command and the two-step submission\<close>

text \<open>
  The promotion command, on an update that carries a message. With arguments, and the
  services table in place, the database afterwards is the one before with exactly one
  row appended: the sender as submitter, the category \<open>custom\<close>, the arguments joined by
  single blanks as description; and the last thing the handler does is to send the
  confirmation, after which it ends normally when the confirmation was delivered. With no
  argument the database is unchanged and the only event is the reply with the keyboard
  of the seven categories, one button for each key of \<^verbatim>\<open>SERVICE_TYPES\<close>.
\<close>

theorem promote_service_on_message:
  assumes "message upd = Some m"
  shows "(args \<noteq> [] \<and> services (db w) = Some rows \<longrightarrow>
            db (snd (promote_service e upd args w))
              = (db w)\<lparr>services := Some (rows @
                 [\<lparr>svc_user_id = effective_user upd, svc_service_type = ''custom'',
                   svc_description = join args, svc_price = None,
                   svc_is_active = True\<rparr>])\<rparr>
          \<and> last (trace (snd (promote_service e upd args w)))
              = Api (ReplyText ServiceSubmitted []) (fst (promote_service e upd args w) = Inr ()))
       \<and> (args = [] \<longrightarrow>
            db (snd (promote_service e upd args w)) = db w
          \<and> new_events w (snd (promote_service e upd args w))
              = [Api (ReplyText SelectServiceType
                        [(ServiceLabel ''Shilling Services'', ''service_shilling''),
                         (ServiceLabel ''Organic Hype Building'', ''service_hype''),
                         (ServiceLabel ''Community Moderation'', ''service_mod''),
                         (ServiceLabel ''Community Management'', ''service_cm''),
                         (ServiceLabel ''Web3 Development'', ''service_dev''),
                         (ServiceLabel ''NFT/Web3 Design'', ''service_design''),
                         (ServiceLabel ''Other Web3 Services'', ''service_other'')])
                    (\<not> api_fails e (clock w))])"
proof (intro conjI impI)
  assume a: "args \<noteq> [] \<and> services (db w) = Some rows"
  obtain w' where
    s: "submit_service e (effective_user upd) ''custom'' (join args) w = (Inr (), w')"
    and d: "db w' = (db w)\<lparr>services := Some (rows @
                 [\<lparr>svc_user_id = effective_user upd, svc_service_type = ''custom'',
                   svc_description = join args, svc_price = None,
                   svc_is_active = True\<rparr>])\<rparr>"
    using submit_service_effect [of w rows e "effective_user upd" "''custom''" "join args"] a
    by blast
  have p: "promote_service e upd args w = call_api e (ReplyText ServiceSubmitted []) w'"
    using a assms by (simp add: promote_service_def s reply_text_def)
  show "db (snd (promote_service e upd args w))
              = (db w)\<lparr>services := Some (rows @
                 [\<lparr>svc_user_id = effective_user upd, svc_service_type = ''custom'',
                   svc_description = join args, svc_price = None,
                   svc_is_active = True\<rparr>])\<rparr>"
    by (simp add: p d call_api_def Let_def)
  show "last (trace (snd (promote_service e upd args w)))
              = Api (ReplyText ServiceSubmitted []) (fst (promote_service e upd args w) = Inr ())"
    by (simp add: p call_api_def Let_def)
next
  assume "args = []"
  then show "db (snd (promote_service e upd args w)) = db w"
    using assms by (simp add: promote_service_def reply_text_def call_api_def Let_def)
next
  assume "args = []"
  then show "new_events w (snd (promote_service e upd args w))
              = [Api (ReplyText SelectServiceType
                        [(ServiceLabel ''Shilling Services'', ''service_shilling''),
                         (ServiceLabel ''Organic Hype Building'', ''service_hype''),
                         (ServiceLabel ''Community Moderation'', ''service_mod''),
                         (ServiceLabel ''Community Management'', ''service_cm''),
                         (ServiceLabel ''Web3 Development'', ''service_dev''),
                         (ServiceLabel ''NFT/Web3 Design'', ''service_design''),
                         (ServiceLabel ''Other Web3 Services'', ''service_other'')])
                    (\<not> api_fails e (clock w))]"
    using assms
    by (simp add: promote_service_def reply_text_def call_api_def Let_def new_events_def
        service_keyboard_def SERVICE_TYPES_def)
qed

theorem promote_service_on_message_witness:
  "message (text_message 3 ''/promote audits for DeFi'') = Some ''/promote audits for DeFi''
   \<and> [''audits'', ''for'', ''DeFi''] \<noteq> [] \<and> services (db fresh_world) = Some []
   \<and> services (db (snd (promote_service rough_env (text_message 3 ''/promote audits for DeFi'')
                  [''audits'', ''for'', ''DeFi''] fresh_world)))
       = Some [\<lparr>svc_user_id = 3, svc_service_type = ''custom'',
                svc_description = ''audits for DeFi'', svc_price = None,
                svc_is_active = True\<rparr>]
   \<and> last (trace (snd (promote_service rough_env (text_message 3 ''/promote audits for DeFi'')
                  [''audits'', ''for'', ''DeFi''] fresh_world)))
       = Api (ReplyText ServiceSubmitted [])
           (fst (promote_service rough_env (text_message 3 ''/promote audits for DeFi'')
                  [''audits'', ''for'', ''DeFi''] fresh_world) = Inr ())
   \<and> db (snd (promote_service rough_env (text_message 3 ''/promote audits for DeFi'') []
                fresh_world)) = db fresh_world
   \<and> new_events fresh_world
        (snd (promote_service rough_env (text_message 3 ''/promote audits for DeFi'') []
                fresh_world))
       = [Api (ReplyText SelectServiceType
                 [(ServiceLabel ''Shilling Services'', ''service_shilling''),
                  (ServiceLabel ''Organic Hype Building'', ''service_hype''),
                  (ServiceLabel ''Community Moderation'', ''service_mod''),
                  (ServiceLabel ''Community Management'', ''service_cm''),
                  (ServiceLabel ''Web3 Development'', ''service_dev''),
                  (ServiceLabel ''NFT/Web3 Design'', ''service_design''),
                  (ServiceLabel ''Other Web3 Services'', ''service_other'')])
              True]"
  using promote_service_on_message
      [of "text_message 3 ''/promote audits for DeFi''" "''/promote audits for DeFi''"
          "[''audits'', ''for'', ''DeFi'']" fresh_world "[]" rough_env]
    promote_service_on_message
      [of "text_message 3 ''/promote audits for DeFi''" "''/promote audits for DeFi''"
          "[]" fresh_world "[]" rough_env]
  by (simp add: fresh_world_def rough_env_def text_message_def init_db_def empty_database_def
      create_if_not_exists_def)

text \<open>
  C9. Every invocation of the promotion command with a payload is to store one row and
  to confirm it to the submitter, and one with no payload is to show the categories.
  The handler replies through \<^verbatim>\<open>update.message\<close>. A command that arrives as the edit of
  a message has none: with a payload the row is stored, the administrators are notified,
  and then AttributeError leaves the handler, so the submitter gets no confirmation;
  with no payload AttributeError is all that happens and no menu is shown.
\<close>

theorem promote_without_message_unconfirmed:
  assumes "message upd = None" and "services (db w) = Some rows"
  shows "(args \<noteq> [] \<longrightarrow>
            fst (promote_service e upd args w) = Inl AttributeError
          \<and> db (snd (promote_service e upd args w))
              = (db w)\<lparr>services := Some (rows @
                 [\<lparr>svc_user_id = effective_user upd, svc_service_type = ''custom'',
                   svc_description = join args, svc_price = None,
                   svc_is_active = True\<rparr>])\<rparr>
          \<and> list_all notice_event (new_events w (snd (promote_service e upd args w))))
       \<and> (args = [] \<longrightarrow> promote_service e upd args w = (Inl AttributeError, w))"
proof (intro conjI impI)
  assume a: "args \<noteq> []"
  obtain w' evs where
    s: "submit_service e (effective_user upd) ''custom'' (join args) w = (Inr (), w')"
    and t: "trace w' = trace w @ evs" and n: "list_all notice_event evs"
    and d: "db w' = (db w)\<lparr>services := Some (rows @
                 [\<lparr>svc_user_id = effective_user upd, svc_service_type = ''custom'',
                   svc_description = join args, svc_price = None,
                   svc_is_active = True\<rparr>])\<rparr>"
    using submit_service_effect [OF assms(2), of e "effective_user upd" "''custom''" "join args"]
    by blast
  have p: "promote_service e upd args w = (Inl AttributeError, w')"
    using a assms(1) by (simp add: promote_service_def s reply_text_def)
  show "fst (promote_service e upd args w) = Inl AttributeError" by (simp add: p)
  show "db (snd (promote_service e upd args w))
              = (db w)\<lparr>services := Some (rows @
                 [\<lparr>svc_user_id = effective_user upd, svc_service_type = ''custom'',
                   svc_description = join args, svc_price = None,
                   svc_is_active = True\<rparr>])\<rparr>"
    by (simp add: p d)
  show "list_all notice_event (new_events w (snd (promote_service e upd args w)))"
    by (simp add: p t n new_events_def)
next
  assume "args = []"
  then show "promote_service e upd args w = (Inl AttributeError, w)"
    using assms(1) by (simp add: promote_service_def reply_text_def)
qed

theorem promote_without_message_unconfirmed_witness:
  "message (edited_command 3) = None \<and> services (db fresh_world) = Some []
   \<and> [''audits'', ''for'', ''DeFi''] \<noteq> []
   \<and> fst (promote_service rough_env (edited_command 3) [''audits'', ''for'', ''DeFi''] fresh_world)
       = Inl AttributeError
   \<and> services (db (snd (promote_service rough_env (edited_command 3)
                          [''audits'', ''for'', ''DeFi''] fresh_world)))
       = Some [\<lparr>svc_user_id = 3, svc_service_type = ''custom'',
                svc_description = ''audits for DeFi'', svc_price = None,
                svc_is_active = True\<rparr>]
   \<and> list_all notice_event
         (new_events fresh_world
            (snd (promote_service rough_env (edited_command 3)
                    [''audits'', ''for'', ''DeFi''] fresh_world)))
   \<and> promote_service rough_env (edited_command 3) [] fresh_world
       = (Inl AttributeError, fresh_world)"
  using promote_without_message_unconfirmed
      [of "edited_command 3" fresh_world "[]" "[''audits'', ''for'', ''DeFi'']" rough_env]
    promote_without_message_unconfirmed [of "edited_command 3" fresh_world "[]" "[]" rough_env]
  by (simp add: edited_command_def fresh_world_def rough_env_def init_db_def
      empty_database_def create_if_not_exists_def)

subsection \<open>Category selection followed by free text\<close>

lemma button_handler_selected:
  assumes "callback_query b = Some query" and "data query = ''service_'' @ cat"
    and "fst (button_handler e b w) = Inr ()"
  shows "user_data (snd (button_handler e b w)) = (user_data w)(effective_user b := Some cat)
       \<and> db (snd (button_handler e b w)) = db w"
  using assms
  by (auto simp: button_handler_def dispatch_def select_service_def call_api_def Let_def
      split: option.splits if_splits)

lemma handle_description_pending:
  assumes "user_data w (effective_user upd) = Some cat" and "message upd = Some t"
    and "services (db w) = Some rows"
  shows "db (snd (handle_service_description e upd w))
           = (db w)\<lparr>services := Some (rows @
                 [\<lparr>svc_user_id = effective_user upd, svc_service_type = cat,
                   svc_description = t, svc_price = None, svc_is_active = True\<rparr>])\<rparr>
       \<and> user_data (snd (handle_service_description e upd w))
           = (user_data w)(effective_user upd := None)"
proof -
  obtain w' where s: "submit_service e (effective_user upd) cat t w = (Inr (), w')"
    and d: "db w' = (db w)\<lparr>services := Some (rows @
                 [\<lparr>svc_user_id = effective_user upd, svc_service_type = cat,
                   svc_description = t, svc_price = None, svc_is_active = True\<rparr>])\<rparr>"
    and u: "user_data w' = user_data w"
    using submit_service_effect [OF assms(3), of e "effective_user upd" cat t] by blast
  show ?thesis
    using assms(1,2)
    by (simp add: handle_service_description_def s d u reply_text_def call_api_def Let_def)
qed

lemma handle_description_idle:
  assumes "user_data w (effective_user upd) = None"
  shows "handle_service_description e upd w = (Inr (), w)"
  using assms by (simp add: handle_service_description_def)

text \<open>
  C5. User \<open>u\<close> presses the button of category \<open>cat\<close> and the handler ends normally, which
  sets the session flag of \<open>u\<close> to \<open>cat\<close>. The next text message of \<open>u\<close> then appends
  exactly one service row, with submitter \<open>u\<close>, category \<open>cat\<close> and the message's text as
  description, and clears the flag, whatever happens to the notifications and to the
  confirmation. A further update from \<open>u\<close>, with no selection in between, is ignored: the
  handler returns at once and the database stays as it is.
\<close>

theorem selected_category_submitted_once:
  assumes "callback_query b = Some query" and "data query = ''service_'' @ cat"
    and "effective_user b = u"
    and "fst (button_handler e b w) = Inr ()"
    and "services (db w) = Some rows"
    and "message t1 = Some text1" and "effective_user t1 = u"
    and "effective_user t2 = u"
    and "w1 = snd (button_handler e b w)"
    and "w2 = snd (handle_service_description e t1 w1)"
    and "w3 = snd (handle_service_description e t2 w2)"
  shows "user_data w1 u = Some cat
       \<and> db w2 = (db w)\<lparr>services := Some (rows @
                 [\<lparr>svc_user_id = u, svc_service_type = cat,
                   svc_description = text1, svc_price = None, svc_is_active = True\<rparr>])\<rparr>
       \<and> user_data w2 u = None
       \<and> handle_service_description e t2 w2 = (Inr (), w2)
       \<and> db w3 = db w2"
proof -
  have 1: "user_data w1 = (user_data w)(u := Some cat)" "db w1 = db w"
    using button_handler_selected [OF assms(1,2,4)] assms(3,9) by simp_all
  have p: "user_data w1 (effective_user t1) = Some cat" "services (db w1) = Some rows"
    using 1 assms(5,7) by simp_all
  have 2: "db w2 = (db w)\<lparr>services := Some (rows @
                 [\<lparr>svc_user_id = u, svc_service_type = cat,
                   svc_description = text1, svc_price = None, svc_is_active = True\<rparr>])\<rparr>"
     "user_data w2 = (user_data w1)(u := None)"
    using handle_description_pending [OF p(1) assms(6) p(2), of e] assms(7,10) 1(2) by simp_all
  have 3: "handle_service_description e t2 w2 = (Inr (), w2)"
    using 2(2) assms(8) by (intro handle_description_idle) simp
  show ?thesis using 1 2 3 assms(11) by simp
qed

theorem selected_category_submitted_once_witness:
  "callback_query (button 3 ''service_dev'') = Some \<lparr>from_user = 3, data = ''service_dev''\<rparr>
   \<and> data \<lparr>from_user = 3, data = ''service_dev''\<rparr> = ''service_'' @ ''dev''
   \<and> effective_user (button 3 ''service_dev'') = 3
   \<and> fst (button_handler calm_env (button 3 ''service_dev'') fresh_world) = Inr ()
   \<and> services (db fresh_world) = Some []
   \<and> message (text_message 3 ''build me a dapp'') = Some ''build me a dapp''
   \<and> effective_user (text_message 3 ''build me a dapp'') = 3
   \<and> effective_user (text_message 3 ''and a site'') = 3
   \<and> user_data (snd (button_handler calm_env (button 3 ''service_dev'') fresh_world)) 3
       = Some ''dev''
   \<and> services (db (snd (handle_service_description calm_env (text_message 3 ''build me a dapp'')
         (snd (button_handler calm_env (button 3 ''service_dev'') fresh_world)))))
       = Some [\<lparr>svc_user_id = 3, svc_service_type = ''dev'',
                svc_description = ''build me a dapp'', svc_price = None, svc_is_active = True\<rparr>]
   \<and> user_data (snd (handle_service_description calm_env (text_message 3 ''build me a dapp'')
         (snd (button_handler calm_env (button 3 ''service_dev'') fresh_world)))) 3 = None
   \<and> db (snd (handle_service_description calm_env (text_message 3 ''and a site'')
        (snd (handle_service_description calm_env (text_message 3 ''build me a dapp'')
         (snd (button_handler calm_env (button 3 ''service_dev'') fresh_world))))))
      = db (snd (handle_service_description calm_env (text_message 3 ''build me a dapp'')
         (snd (button_handler calm_env (button 3 ''service_dev'') fresh_world))))"
proof -
  have sel: "fst (button_handler calm_env (button 3 ''service_dev'') fresh_world) = Inr ()"
    by (simp add: button_handler_def dispatch_def select_service_def call_api_def Let_def
        button_def calm_env_def SERVICE_TYPES_def)
  have tab: "services (db fresh_world) = Some []"
    by (simp add: fresh_world_def init_db_def empty_database_def create_if_not_exists_def)
  show ?thesis
    using selected_category_submitted_once
      [of "button 3 ''service_dev''" "\<lparr>from_user = 3, data = ''service_dev''\<rparr>" "''dev''" 3
          calm_env fresh_world "[]" "text_message 3 ''build me a dapp''" "''build me a dapp''"
          "text_message 3 ''and a site''"
          "snd (button_handler calm_env (button 3 ''service_dev'') fresh_world)"
          "snd (handle_service_description calm_env (text_message 3 ''build me a dapp'')
             (snd (button_handler calm_env (button 3 ''service_dev'') fresh_world)))"
          "snd (handle_service_description calm_env (text_message 3 ''and a site'')
            (snd (handle_service_description calm_env (text_message 3 ''build me a dapp'')
             (snd (button_handler calm_env (button 3 ''service_dev'') fresh_world)))))"]
      sel tab
    by (simp add: button_def text_message_def)
qed

section \<open>Callback routing\<close>

text \<open>
  C4. A tag that starts with neither \<^verbatim>\<open>vote_\<close> nor \<^verbatim>\<open>service_\<close> and is none of the
  literals \<^verbatim>\<open>trends\<close> and \<^verbatim>\<open>wallets\<close> falls through every branch of button_handler:
  the database and the session flags are unchanged, the only event is the acknowledgement
  of the press, and once that acknowledgement was accepted nothing raises. (The literals
  \<^verbatim>\<open>service_menu\<close> and \<^verbatim>\<open>vote_menu\<close> have one of the prefixes.) A tag with one of the
  prefixes is not ignored, whatever follows the prefix: see the subsection on prefixed
  tags that do not parse.
\<close>

theorem unrecognized_tag_ignored:
  assumes "callback_query upd = Some query"
    and "\<not> prefix ''vote_'' (data query)" and "\<not> prefix ''service_'' (data query)"
    and "data query \<notin> {''service_menu'', ''vote_menu'', ''trends'', ''wallets''}"
  shows "db (snd (button_handler e upd w)) = db w
       \<and> user_data (snd (button_handler e upd w)) = user_data w
       \<and> new_events w (snd (button_handler e upd w)) = [Api Answer (\<not> api_fails e (clock w))]
       \<and> (\<not> api_fails e (clock w) \<longrightarrow> fst (button_handler e upd w) = Inr ())"
  using assms
  by (simp add: button_handler_def dispatch_def call_api_def Let_def new_events_def)

theorem unrecognized_tag_ignored_witness:
  "callback_query (button 5 ''find_services'') = Some \<lparr>from_user = 5, data = ''find_services''\<rparr>
   \<and> \<not> prefix ''vote_'' (data \<lparr>from_user = 5, data = ''find_services''\<rparr>)
   \<and> \<not> prefix ''service_'' (data \<lparr>from_user = 5, data = ''find_services''\<rparr>)
   \<and> data \<lparr>from_user = 5, data = ''find_services''\<rparr>
        \<notin> {''service_menu'', ''vote_menu'', ''trends'', ''wallets''}
   \<and> \<not> api_fails rough_env (clock voted_world)
   \<and> db (snd (button_handler rough_env (button 5 ''find_services'') voted_world)) = db voted_world
   \<and> user_data (snd (button_handler rough_env (button 5 ''find_services'') voted_world))
       = user_data voted_world
   \<and> new_events voted_world (snd (button_handler rough_env (button 5 ''find_services'') voted_world))
       = [Api Answer True]
   \<and> fst (button_handler rough_env (button 5 ''find_services'') voted_world) = Inr ()"
  using unrecognized_tag_ignored
    [of "button 5 ''find_services''" "\<lparr>from_user = 5, data = ''find_services''\<rparr>" rough_env
        voted_world]
  by (simp add: button_def rough_env_def voted_world_def fresh_world_def)

text \<open>The tags \<^verbatim>\<open>vote_abc\<close> and \<^verbatim>\<open>service_xyz\<close> are no vote for a project and no
  choice of a category: \<^verbatim>\<open>abc\<close> is no integer and \<^verbatim>\<open>xyz\<close> no key of \<^verbatim>\<open>SERVICE_TYPES\<close>.
  They are not ignored: an error leaves the handler.\<close>

theorem malformed_tag_counterexample:
  "py_int calm_env ''abc'' = None
   \<and> fst (button_handler calm_env (button 5 ''vote_abc'') fresh_world) = Inl ValueError
   \<and> map_of SERVICE_TYPES ''xyz'' = None
   \<and> fst (button_handler calm_env (button 5 ''service_xyz'') fresh_world) = Inl KeyError"
  by (simp add: button_handler_def dispatch_def select_service_def call_api_def Let_def
      SERVICE_TYPES_def py_int_def ascii_def ascii_int_def strip_def isspace_def py_nat_def
      digit_def button_def calm_env_def fresh_world_def)

subsection \<open>Tags that the branch order misroutes\<close>

text \<open>
  C3. The literal tag \<^verbatim>\<open>service_menu\<close> is meant to open the service-category menu and
  the literal tag \<^verbatim>\<open>vote_menu\<close> to show the voting menu. In button_handler the tests
  \<^verbatim>\<open>data.startswith('vote_')\<close> and \<^verbatim>\<open>data.startswith('service_')\<close> come before the
  comparisons with these literals, and both literals have one of the prefixes. So
  \<^verbatim>\<open>service_menu\<close> is taken for the category \<^verbatim>\<open>menu\<close>, which is no key of
  \<^verbatim>\<open>SERVICE_TYPES\<close>, and \<^verbatim>\<open>vote_menu\<close> for a vote whose identifier \<^verbatim>\<open>menu\<close> is no
  number: after the acknowledgement the handler raises KeyError, respectively ValueError,
  and no menu is sent, in every environment and every state.
\<close>

theorem menu_buttons_shadowed:
  "button_handler e \<lparr>message = m, callback_query = Some \<lparr>from_user = u, data = ''service_menu''\<rparr>,
                      effective_user = u'\<rparr> w
     = (if api_fails e (clock w) then Inl TelegramError else Inl KeyError,
        w\<lparr>trace := trace w @ [Api Answer (\<not> api_fails e (clock w))], clock := Suc (clock w)\<rparr>)
   \<and> button_handler e \<lparr>message = m, callback_query = Some \<lparr>from_user = u, data = ''vote_menu''\<rparr>,
                      effective_user = u'\<rparr> w
     = (if api_fails e (clock w) then Inl TelegramError else Inl ValueError,
        w\<lparr>trace := trace w @ [Api Answer (\<not> api_fails e (clock w))], clock := Suc (clock w)\<rparr>)"
  by (simp add: button_handler_def dispatch_def select_service_def call_api_def Let_def
      SERVICE_TYPES_def py_int_def ascii_def ascii_int_def strip_def isspace_def py_nat_def
      digit_def)

subsection \<open>Buttons whose handlers reply through the message of the update\<close>

text \<open>The branches for \<^verbatim>\<open>trends\<close> and \<^verbatim>\<open>wallets\<close> are reached, but crypto_trends and
  show_wallets answer with \<^verbatim>\<open>update.message.reply_text\<close>. On an update without a message
  that raises, so the press shows nothing.\<close>

lemma reply_needs_message:
  "message upd = None \<Longrightarrow> reply_text e upd t kb w = (Inl AttributeError, w)"
  by (simp add: reply_text_def)

lemma wallets_button_raises:
  assumes "message upd = None" and "callback_query upd = Some query" and "data query = ''wallets''"
  shows "fst (button_handler e upd w) \<noteq> Inr ()
       \<and> new_events w (snd (button_handler e upd w)) = [Api Answer (\<not> api_fails e (clock w))]"
  using assms
  by (auto simp: button_handler_def dispatch_def show_wallets_def reply_needs_message
      with_connection_def call_api_def Let_def new_events_def split: option.splits)

lemma trends_button_raises:
  assumes "message upd = None" and "callback_query upd = Some query" and "data query = ''trends''"
  shows "fst (button_handler e upd w) \<noteq> Inr ()
       \<and> (\<forall>t kb ok. Api (ReplyText t kb) ok \<notin> set (new_events w (snd (button_handler e upd w))))"
  using assms
  by (auto simp: button_handler_def dispatch_def crypto_trends_def fetch_trends_def
      reply_needs_message logger_error_def
      call_api_def Let_def new_events_def split: option.splits http_result.splits sum.splits)

subsection \<open>Vote buttons\<close>

text \<open>The tag of a vote button is \<^verbatim>\<open>f'vote_{id}'\<close>; \<^verbatim>\<open>int\<close> reads the identifier back,
  so the press casts a vote for that project.\<close>

lemma digit_char_of: "d < 10 \<Longrightarrow> digit (char_of (48 + d)) = Some d"
  by (simp add: digit_def Let_def)

lemma digit_plain:
  assumes "digit c = Some v"
  shows "c \<noteq> CHR ''_''" and "c \<noteq> CHR ''-''" and "c \<noteq> CHR ''+''" and "\<not> isspace c"
  using assms by (auto simp: digit_def isspace_def Let_def split: if_splits)

lemma str_nat_digits: "\<forall>c\<in>set (str_nat n). \<exists>v. digit c = Some v"
proof (induction n rule: str_nat.induct)
  case (1 n)
  show ?case
  proof (cases "n < 10")
    case True
    then show ?thesis by (subst str_nat.simps) (simp add: digit_char_of)
  next
    case False
    have "n mod 10 < 10" by simp
    then have "digit (char_of (48 + n mod 10)) = Some (n mod 10)" by (rule digit_char_of)
    with False 1 show ?thesis by (subst str_nat.simps) auto
  qed
qed

lemma str_nat_nonempty: "str_nat n \<noteq> []"
  by (subst str_nat.simps) simp

lemma digits_append:
  assumes "\<forall>c\<in>set xs. \<exists>v. digit c = Some v"
  shows "digits acc False (xs @ ys)
           = digits (foldl (\<lambda>a c. 10 * a + the (digit c)) acc xs) False ys"
  using assms
proof (induction xs arbitrary: acc)
  case Nil
  show ?case by simp
next
  case (Cons c xs)
  then obtain v where v: "digit c = Some v" by auto
  have "c \<noteq> CHR ''_''" using v by (rule digit_plain)
  with Cons v show ?case by simp
qed

lemma foldl_str_nat: "foldl (\<lambda>a c. 10 * a + the (digit c)) 0 (str_nat n) = n"
proof (induction n rule: str_nat.induct)
  case (1 n)
  show ?case
  proof (cases "n < 10")
    case True
    then show ?thesis by (subst str_nat.simps) (simp add: digit_char_of)
  next
    case False
    have "n mod 10 < 10" by simp
    then have "digit (char_of (48 + n mod 10)) = Some (n mod 10)" by (rule digit_char_of)
    with False 1 show ?thesis by (subst str_nat.simps) simp
  qed
qed

lemma py_nat_str_nat: "py_nat (str_nat n) = Some n"
proof -
  obtain c cs where s: "str_nat n = c # cs"
    using str_nat_nonempty [of n] by (cases "str_nat n") auto
  obtain v where v: "digit c = Some v" using str_nat_digits [of n] s by auto
  have "c \<noteq> CHR ''_''" using v by (rule digit_plain)
  then have "py_nat (str_nat n) = digits 0 False (str_nat n @ [])"
    by (simp add: py_nat_def s v)
  also have "\<dots> = Some n"
    using str_nat_digits [of n] by (subst digits_append) (simp_all add: foldl_str_nat)
  finally show ?thesis .
qed

lemma strip_plain:
  assumes "s \<noteq> []" and "\<not> isspace (hd s)" and "\<not> isspace (last s)"
  shows "strip s = s"
proof -
  have 1: "dropWhile isspace s = s" using assms(1,2) by (cases s) auto
  have "rev s \<noteq> []" "\<not> isspace (hd (rev s))" using assms(1,3) by (simp_all add: hd_rev)
  then have 2: "dropWhile isspace (rev s) = rev s" by (cases "rev s") auto
  show ?thesis by (simp add: strip_def 1 2)
qed

lemma ascii_int_str_nat:
  "ascii_int (str_nat n) = Some (int n)" "ascii_int (CHR ''-'' # str_nat n) = Some (- int n)"
proof -
  obtain c cs where s: "str_nat n = c # cs"
    using str_nat_nonempty [of n] by (cases "str_nat n") auto
  obtain v where v: "digit c = Some v" using str_nat_digits [of n] s by auto
  have "last (str_nat n) \<in> set (str_nat n)" using str_nat_nonempty by simp
  then obtain v' where v': "digit (last (str_nat n)) = Some v'"
    using str_nat_digits [of n] by blast
  have sp: "\<not> isspace c" "\<not> isspace (last (c # cs))" "c \<noteq> CHR ''-''" "c \<noteq> CHR ''+''"
    using digit_plain [OF v] digit_plain [OF v'] s by simp_all
  have val: "py_nat (c # cs) = Some n" using py_nat_str_nat [of n] s by simp
  have "strip (c # cs) = c # cs"
    using sp by (intro strip_plain) simp_all
  then show "ascii_int (str_nat n) = Some (int n)"
    using val sp by (simp add: ascii_int_def s)
  have "\<not> isspace (CHR ''-'')" by (simp add: isspace_def)
  then have "strip (CHR ''-'' # c # cs) = CHR ''-'' # c # cs"
    using sp by (intro strip_plain) simp_all
  then show "ascii_int (CHR ''-'' # str_nat n) = Some (- int n)"
    using val by (simp add: ascii_int_def s)
qed

lemma digit_ascii: "digit c = Some v \<Longrightarrow> (of_char c :: nat) < 128"
  by (auto simp: digit_def Let_def split: if_splits)

lemma ascii_str_int: "ascii (str_int i)"
proof -
  have "ascii (str_nat n)" for n
    using str_nat_digits [of n] by (auto simp: ascii_def list_all_iff dest: digit_ascii)
  then show ?thesis by (simp add: str_int_def ascii_def)
qed

lemma py_int_str_int: "py_int e (str_int i) = Some i"
proof (cases "i < 0")
  case True
  then have "ascii_int (str_int i) = Some i" by (simp add: str_int_def ascii_int_str_nat(2))
  then show ?thesis by (simp add: py_int_def ascii_str_int)
next
  case False
  then have "ascii_int (str_int i) = Some i" by (simp add: str_int_def ascii_int_str_nat(1))
  then show ?thesis by (simp add: py_int_def ascii_str_int)
qed

lemma drop_vote_prefix: "drop 5 (''vote_'' @ s) = s"
  by (simp add: numeral_eq_Suc)

lemma vote_button_casts_vote:
  assumes "callback_query upd = Some query" and "data query = ''vote_'' @ str_int project_id"
    and "\<not> api_fails e (clock w)"
  shows "button_handler e upd w
           = process_vote e (from_user query) project_id
               (w\<lparr>trace := trace w @ [Api Answer True], clock := Suc (clock w)\<rparr>)"
proof -
  have p: "prefix ''vote_'' (data query)" by (simp add: assms(2))
  have d: "drop 5 (data query) = str_int project_id" by (simp only: assms(2) drop_vote_prefix)
  have "dispatch e upd query w' = process_vote e (from_user query) project_id w'" for w'
    by (simp only: dispatch_def p d py_int_str_int if_True option.case)
  then show ?thesis
    using assms(1,3) by (simp add: button_handler_def call_api_def Let_def)
qed

subsection \<open>Prefixed tags that do not parse\<close>

text \<open>A tag with the prefix \<^verbatim>\<open>vote_\<close> or \<^verbatim>\<open>service_\<close> is taken by the branch of its
  prefix whatever follows: what is no number raises ValueError, what is no key of
  \<^verbatim>\<open>SERVICE_TYPES\<close> raises KeyError.\<close>

lemma malformed_vote_tag_raises:
  assumes "callback_query upd = Some query" and "prefix ''vote_'' (data query)"
    and "py_int e (drop 5 (data query)) = None" and "\<not> api_fails e (clock w)"
  shows "button_handler e upd w
           = (Inl ValueError, w\<lparr>trace := trace w @ [Api Answer True], clock := Suc (clock w)\<rparr>)"
  using assms by (simp add: button_handler_def dispatch_def call_api_def Let_def)

lemma unknown_category_raises:
  assumes "callback_query upd = Some query" and "\<not> prefix ''vote_'' (data query)"
    and "prefix ''service_'' (data query)"
    and "map_of SERVICE_TYPES (drop 8 (data query)) = None" and "\<not> api_fails e (clock w)"
  shows "button_handler e upd w
           = (Inl KeyError, w\<lparr>trace := trace w @ [Api Answer True], clock := Suc (clock w)\<rparr>)"
  using assms
  by (simp add: button_handler_def dispatch_def select_service_def call_api_def Let_def)

end
